theory Spec2Isabelle
  imports Complex_Main "HOL-Library.Log_Nat"
begin

section \<open>Aqara devices (\<^verbatim>\<open>aqara/device.py\<close>): values, errors and built-ins\<close>

text \<open>
  The module is Python 3 (it calls \<^verbatim>\<open>super()\<close> without arguments), so \<^verbatim>\<open>/\<close> is
  true division. The values that reach the module are the gateway's identifiers and
  the entries of a decoded report: \<^verbatim>\<open>None\<close>, strings and integers. Strings are ASCII
  text (one \<^typ>\<open>char\<close> per character).
\<close>

datatype pyval = PyNone | PyStr string | PyInt int

text \<open>The exceptions the module can raise, as values. \<open>RuntimeError\<close> carries its message.\<close>

datatype pyerror = TypeError | ValueError | OverflowError | RuntimeError string

text \<open>A report is a \<^verbatim>\<open>dict\<close> with string keys.\<close>

type_synonym payload = "string \<rightharpoonup> pyval"

text \<open>
  An update callback is an opaque zero-argument callable of the listener; the model
  knows it by an identifier and records each invocation.
\<close>

type_synonym callback = nat

subsection \<open>\<^verbatim>\<open>str()\<close> of a value, as \<^verbatim>\<open>str.format\<close> and \<^verbatim>\<open>%s\<close> render it\<close>

definition digit_char :: "nat \<Rightarrow> char" where
  "digit_char d = char_of (48 + d)"

function str_nat :: "nat \<Rightarrow> string" where
  "str_nat n = (if n < 10 then [digit_char n] else str_nat (n div 10) @ [digit_char (n mod 10)])"
  by pat_completeness auto
termination
  by (relation "measure id") auto

declare str_nat.simps [simp del]

definition str_int :: "int \<Rightarrow> string" where
  "str_int i = (if i < 0 then CHR ''-'' # str_nat (nat (- i)) else str_nat (nat i))"

fun py_str :: "pyval \<Rightarrow> string" where
  "py_str PyNone = ''None''"
| "py_str (PyStr s) = s"
| "py_str (PyInt i) = str_int i"

subsection \<open>\<^verbatim>\<open>int()\<close>\<close>

text \<open>
  \<^verbatim>\<open>int(s)\<close> of a string, base 10: surrounding whitespace (tab, line feed, vertical
  tab, form feed, carriage return, space) is dropped, then an optional sign, then
  decimal digits, where single underscores may separate digits. Anything else, the
  separators \<open>0x1C\<close> to \<open>0x1F\<close> included, raises \<^verbatim>\<open>ValueError\<close>. (The interpreter's configurable limit on the number of
  digits is not part of the model.)
\<close>

definition is_space :: "char \<Rightarrow> bool" where
  "is_space c \<longleftrightarrow>
     c \<in> set [CHR 0x09, CHR 0x0A, CHR 0x0B, CHR 0x0C, CHR 0x0D, CHR 0x20]"

definition is_digit :: "char \<Rightarrow> bool" where
  "is_digit c \<longleftrightarrow> (48::nat) \<le> of_char c \<and> (of_char c :: nat) \<le> 57"

definition digit_val :: "char \<Rightarrow> nat" where
  "digit_val c = of_char c - 48"

definition strip :: "string \<Rightarrow> string" where
  "strip s = rev (dropWhile is_space (rev (dropWhile is_space s)))"

fun digits_val :: "nat \<Rightarrow> string \<Rightarrow> nat option" where
  "digits_val acc [] = Some acc"
| "digits_val acc (c # cs) =
     (if is_digit c then digits_val (10 * acc + digit_val c) cs
      else if c = CHR ''_'' \<and> (case cs of [] \<Rightarrow> False | d # _ \<Rightarrow> is_digit d)
        then digits_val acc cs
      else None)"

definition unsigned_of_str :: "string \<Rightarrow> nat option" where
  "unsigned_of_str s =
     (case s of [] \<Rightarrow> None | c # _ \<Rightarrow> if is_digit c then digits_val 0 s else None)"

definition int_of_str :: "string \<Rightarrow> pyerror + int" where
  "int_of_str s =
     (let t = strip s;
          (neg, body) =
            (case t of
               [] \<Rightarrow> (False, [])
             | c # cs \<Rightarrow>
                 if c = CHR ''-'' then (True, cs)
                 else if c = CHR ''+'' then (False, cs)
                 else (False, t))
      in case unsigned_of_str body of
           None \<Rightarrow> Inl ValueError
         | Some n \<Rightarrow> Inr (if neg then - int n else int n))"

fun py_int :: "pyval \<Rightarrow> pyerror + int" where
  "py_int PyNone = Inl TypeError"
| "py_int (PyStr s) = int_of_str s"
| "py_int (PyInt i) = Inr i"

subsection \<open>Floats\<close>

text \<open>
  A finite binary64 float is modelled by the rational number it denotes (so \<open>0.0\<close> and
  \<open>-0.0\<close>, which Python's \<^verbatim>\<open>==\<close> identifies, are one value). \<open>to_double\<close> is IEEE 754
  rounding to nearest, ties to even, of an exact rational; a result beyond the largest
  finite float is the overflow that Python reports as \<^verbatim>\<open>OverflowError\<close>.
\<close>

definition round_half_even :: "rat \<Rightarrow> int" where
  "round_half_even q =
     (let f = \<lfloor>q\<rfloor>; d = q - of_int f
      in if d < 1 / 2 then f else if 1 / 2 < d then f + 1 else if even f then f else f + 1)"

text \<open>\<open>ilog2 q\<close> is \<open>\<lfloor>log\<^sub>2 q\<rfloor>\<close> for \<open>q > 0\<close>, from the bit lengths of numerator and denominator.\<close>

definition ilog2 :: "rat \<Rightarrow> int" where
  "ilog2 q =
     (let (a, b) = quotient_of q;
          e = int (floorlog 2 (nat a)) - int (floorlog 2 (nat b))
      in if q < 2 powi e then e - 1 else e)"

definition to_double :: "rat \<Rightarrow> pyerror + rat" where
  "to_double q =
     (if q = 0 then Inr 0
      else let ulp = 2 powi (max (ilog2 \<bar>q\<bar>) (- 1022) - 52);
               r = of_int (round_half_even (q / ulp)) * ulp
           in if 2 ^ 1024 \<le> \<bar>r\<bar> then Inl OverflowError else Inr r)"

text \<open>\<^verbatim>\<open>a / 100\<close> on an \<^verbatim>\<open>int\<close>: the correctly rounded quotient.\<close>

definition truediv_100 :: "int \<Rightarrow> pyerror + rat" where
  "truediv_100 a = to_double (of_int a / 100)"

text \<open>
  \<^verbatim>\<open>round(x, 1)\<close> on a float: the exact value of \<open>x\<close> rounded to one decimal digit,
  ties to even, then converted back to the nearest float.
\<close>

definition round_1 :: "rat \<Rightarrow> pyerror + rat" where
  "round_1 x = to_double (of_int (round_half_even (x * 10)) / 10)"

section \<open>The device classes\<close>

text \<open>
  The module imports its identifiers from \<^verbatim>\<open>aqara/const.py\<close>, which is not among the
  sources at hand; the model takes the eight constants as a parameter.
\<close>

record aqara_const =
  AQARA_DEVICE_HT :: pyval
  AQARA_DEVICE_MOTION :: pyval
  AQARA_DEVICE_MAGNET :: pyval
  AQARA_DEVICE_SWITCH :: pyval
  AQARA_SWITCH_ACTION_CLICK :: pyval
  AQARA_SWITCH_ACTION_DOUBLE_CLICK :: pyval
  AQARA_SWITCH_ACTION_LONG_CLICK_PRESS :: pyval
  AQARA_SWITCH_ACTION_LONG_CLICK_RELEASE :: pyval

definition BUTTON_ACTION_MAP :: "aqara_const \<Rightarrow> pyval \<rightharpoonup> pyval" where
  "BUTTON_ACTION_MAP c =
     map_of
       [(PyStr ''click'', AQARA_SWITCH_ACTION_CLICK c),
        (PyStr ''double_click'', AQARA_SWITCH_ACTION_DOUBLE_CLICK c),
        (PyStr ''long_click_press'', AQARA_SWITCH_ACTION_LONG_CLICK_PRESS c),
        (PyStr ''long_click_release'', AQARA_SWITCH_ACTION_LONG_CLICK_RELEASE c)]"

subsection \<open>\<^verbatim>\<open>AqaraBaseDevice\<close>\<close>

record AqaraBaseDevice =
  self_gateway :: pyval
  self_model :: pyval
  self_sid :: pyval
  self_update_callback :: "callback option"

text \<open>
  \<^verbatim>\<open>AqaraBaseDevice.__init__(self, gateway, model, sid)\<close> has three required positional
  parameters besides \<^verbatim>\<open>self\<close>. The model is given the list of positional arguments of
  the call; any other number of them is Python's \<^verbatim>\<open>TypeError\<close>.
\<close>

fun AqaraBaseDevice_init :: "pyval list \<Rightarrow> pyerror + AqaraBaseDevice" where
  "AqaraBaseDevice_init [gateway, model, sid] =
     Inr \<lparr>self_gateway = gateway, self_model = model, self_sid = sid,
          self_update_callback = None\<rparr>"
| "AqaraBaseDevice_init _ = Inl TypeError"

text \<open>
  The four subclasses, each with the fields its \<^verbatim>\<open>__init__\<close> adds:
  \<^verbatim>\<open>_temp\<close>, \<^verbatim>\<open>_humid\<close>; \<^verbatim>\<open>_triggered\<close>, \<^verbatim>\<open>_voltage\<close> (twice); \<^verbatim>\<open>_last_action\<close>, \<^verbatim>\<open>_voltage\<close>.
\<close>

datatype device =
    AqaraHTSensor (base: AqaraBaseDevice) rat rat
  | AqaraContactSensor (base: AqaraBaseDevice) bool int
  | AqaraMotionSensor (base: AqaraBaseDevice) bool int
  | AqaraSwitchSensor (base: AqaraBaseDevice) pyval int

text \<open>Each subclass calls \<^verbatim>\<open>super().__init__(AQARA_DEVICE_..., sid)\<close>, then sets its fields.\<close>

definition AqaraHTSensor_init :: "aqara_const \<Rightarrow> pyval \<Rightarrow> pyerror + device" where
  "AqaraHTSensor_init c sid =
     (case AqaraBaseDevice_init [AQARA_DEVICE_HT c, sid] of
        Inl e \<Rightarrow> Inl e
      | Inr b \<Rightarrow> Inr (AqaraHTSensor b 0 0))"

definition AqaraContactSensor_init :: "aqara_const \<Rightarrow> pyval \<Rightarrow> pyerror + device" where
  "AqaraContactSensor_init c sid =
     (case AqaraBaseDevice_init [AQARA_DEVICE_MAGNET c, sid] of
        Inl e \<Rightarrow> Inl e
      | Inr b \<Rightarrow> Inr (AqaraContactSensor b False 0))"

definition AqaraMotionSensor_init :: "aqara_const \<Rightarrow> pyval \<Rightarrow> pyerror + device" where
  "AqaraMotionSensor_init c sid =
     (case AqaraBaseDevice_init [AQARA_DEVICE_MOTION c, sid] of
        Inl e \<Rightarrow> Inl e
      | Inr b \<Rightarrow> Inr (AqaraMotionSensor b False 0))"

definition AqaraSwitchSensor_init :: "aqara_const \<Rightarrow> pyval \<Rightarrow> pyerror + device" where
  "AqaraSwitchSensor_init c sid =
     (case AqaraBaseDevice_init [AQARA_DEVICE_SWITCH c, sid] of
        Inl e \<Rightarrow> Inl e
      | Inr b \<Rightarrow> Inr (AqaraSwitchSensor b PyNone 0))"

subsection \<open>The factory\<close>

definition create_device :: "aqara_const \<Rightarrow> pyval \<Rightarrow> pyval \<Rightarrow> pyerror + device" where
  "create_device c model sid =
     (if model = AQARA_DEVICE_HT c then AqaraHTSensor_init c sid
      else if model = AQARA_DEVICE_MOTION c then AqaraMotionSensor_init c sid
      else if model = AQARA_DEVICE_MAGNET c then AqaraContactSensor_init c sid
      else if model = AQARA_DEVICE_SWITCH c then AqaraSwitchSensor_init c sid
      else Inl (RuntimeError
                 (''Unsupported device type: '' @ py_str model @ '' ['' @ py_str sid @ '']'')))"

subsection \<open>Properties and the callback\<close>

definition sid :: "device \<Rightarrow> pyval" where
  "sid d = self_sid (base d)"

definition model :: "device \<Rightarrow> pyval" where
  "model d = self_model (base d)"

fun map_base :: "(AqaraBaseDevice \<Rightarrow> AqaraBaseDevice) \<Rightarrow> device \<Rightarrow> device" where
  "map_base f (AqaraHTSensor b temp humid) = AqaraHTSensor (f b) temp humid"
| "map_base f (AqaraContactSensor b triggered voltage) = AqaraContactSensor (f b) triggered voltage"
| "map_base f (AqaraMotionSensor b triggered voltage) = AqaraMotionSensor (f b) triggered voltage"
| "map_base f (AqaraSwitchSensor b last_action voltage) = AqaraSwitchSensor (f b) last_action voltage"

text \<open>\<^verbatim>\<open>set_update_callback\<close>; the argument \<open>None\<close> is Python's \<^verbatim>\<open>None\<close>.\<close>

definition set_update_callback :: "callback option \<Rightarrow> device \<Rightarrow> device" where
  "set_update_callback update_callback d =
     map_base (\<lambda>b. b\<lparr>self_update_callback := update_callback\<rparr>) d"

subsection \<open>The world outside the device\<close>

text \<open>
  What the module does to its surroundings: the entries it hands to \<^verbatim>\<open>_LOGGER.warning\<close>
  and the invocations of update callbacks, both oldest first. A callback is taken to
  return normally.
\<close>

record world =
  log :: "string list"
  calls :: "callback list"

text \<open>\<^verbatim>\<open>log_warning\<close>: \<^verbatim>\<open>_LOGGER.warning('[%s] %s: %s', self._model, self._sid, msg)\<close>.\<close>

definition log_warning :: "AqaraBaseDevice \<Rightarrow> string \<Rightarrow> world \<Rightarrow> world" where
  "log_warning b msg w =
     w\<lparr>log := log w @ [''['' @ py_str (self_model b) @ ''] '' @ py_str (self_sid b) @ '': '' @ msg]\<rparr>"

subsection \<open>The parsing hooks\<close>

text \<open>\<^verbatim>\<open>AqaraHTSensor.parse_value\<close>: \<^verbatim>\<open>round(int(str_value) / 100, 1)\<close>.\<close>

definition parse_value :: "pyval \<Rightarrow> pyerror + rat" where
  "parse_value str_value =
     (case py_int str_value of
        Inl e \<Rightarrow> Inl e
      | Inr n \<Rightarrow> (case truediv_100 n of Inl e \<Rightarrow> Inl e | Inr x \<Rightarrow> round_1 x))"

text \<open>
  \<^verbatim>\<open>'invalid status: {}' % status\<close> in the switch: the format string holds no conversion
  specifier, and \<^verbatim>\<open>status\<close> (\<^verbatim>\<open>None\<close>, a string or an integer) is neither a tuple nor a
  mapping, so \<^verbatim>\<open>str.__mod__\<close> raises \<^verbatim>\<open>TypeError\<close> (not all arguments converted).
\<close>

definition invalid_status_msg :: "pyval \<Rightarrow> pyerror + string" where
  "invalid_status_msg status = Inl TypeError"

text \<open>
  A hook mutates the device in place and may raise; the outcome is the state it leaves
  behind together with the exception, if any.
\<close>

type_synonym state = "device \<times> world"
type_synonym outcome = "state \<times> pyerror option"

fun do_update :: "aqara_const \<Rightarrow> payload \<Rightarrow> state \<Rightarrow> outcome" where
  "do_update c data (AqaraHTSensor b temp humid, w) =
     (case (case data ''temperature'' of None \<Rightarrow> Inr temp | Some v \<Rightarrow> parse_value v) of
        Inl e \<Rightarrow> ((AqaraHTSensor b temp humid, w), Some e)
      | Inr temp' \<Rightarrow>
          (case (case data ''humidity'' of None \<Rightarrow> Inr humid | Some v \<Rightarrow> parse_value v) of
             Inl e \<Rightarrow> ((AqaraHTSensor b temp' humid, w), Some e)
           | Inr humid' \<Rightarrow> ((AqaraHTSensor b temp' humid', w), None)))"
| "do_update c data (AqaraContactSensor b triggered voltage, w) =
     (case data ''status'' of
        Some status \<Rightarrow> ((AqaraContactSensor b (status = PyStr ''open'') voltage, w), None)
      | None \<Rightarrow> ((AqaraContactSensor b triggered voltage, w), None))"
| "do_update c data (AqaraMotionSensor b triggered voltage, w) =
     (case data ''status'' of
        Some status \<Rightarrow> ((AqaraMotionSensor b (status = PyStr ''motion'') voltage, w), None)
      | None \<Rightarrow> ((AqaraMotionSensor b False voltage, w), None))"
| "do_update c data (AqaraSwitchSensor b last_action voltage, w) =
     (case data ''status'' of
        Some status \<Rightarrow>
          (case BUTTON_ACTION_MAP c status of
             Some action \<Rightarrow> ((AqaraSwitchSensor b action voltage, w), None)
           | None \<Rightarrow>
               (case invalid_status_msg status of
                  Inl e \<Rightarrow> ((AqaraSwitchSensor b last_action voltage, w), Some e)
                | Inr msg \<Rightarrow> ((AqaraSwitchSensor b last_action voltage, log_warning b msg w), None)))
      | None \<Rightarrow> ((AqaraSwitchSensor b last_action voltage, w), None))"

fun do_heartbeat :: "aqara_const \<Rightarrow> payload \<Rightarrow> state \<Rightarrow> outcome" where
  "do_heartbeat c data (AqaraHTSensor b temp humid, w) =
     do_update c data (AqaraHTSensor b temp humid, w)"
| "do_heartbeat c data (AqaraContactSensor b triggered voltage, w) =
     (case data ''voltage'' of
        Some v \<Rightarrow>
          (case py_int v of
             Inl e \<Rightarrow> ((AqaraContactSensor b triggered voltage, w), Some e)
           | Inr voltage' \<Rightarrow> ((AqaraContactSensor b triggered voltage', w), None))
      | None \<Rightarrow> ((AqaraContactSensor b triggered voltage, w), None))"
| "do_heartbeat c data (AqaraMotionSensor b triggered voltage, w) =
     (case data ''voltage'' of
        Some v \<Rightarrow>
          (case py_int v of
             Inl e \<Rightarrow> ((AqaraMotionSensor b triggered voltage, w), Some e)
           | Inr voltage' \<Rightarrow> ((AqaraMotionSensor b triggered voltage', w), None))
      | None \<Rightarrow> ((AqaraMotionSensor b triggered voltage, w), None))"
| "do_heartbeat c data (AqaraSwitchSensor b last_action voltage, w) =
     (case data ''voltage'' of
        Some v \<Rightarrow>
          (case py_int v of
             Inl e \<Rightarrow> ((AqaraSwitchSensor b last_action voltage, w), Some e)
           | Inr voltage' \<Rightarrow> ((AqaraSwitchSensor b last_action voltage', w), None))
      | None \<Rightarrow> ((AqaraSwitchSensor b last_action voltage, w), None))"

subsection \<open>\<^verbatim>\<open>on_update\<close> and \<^verbatim>\<open>on_heartbeat\<close>\<close>

text \<open>
  Both run the hook and then, unless the hook raised, call the callback if one is set
  (\<^verbatim>\<open>self._update_callback != None\<close>).
\<close>

definition notify :: "state \<Rightarrow> outcome" where
  "notify s =
     (case self_update_callback (base (fst s)) of
        None \<Rightarrow> (s, None)
      | Some cb \<Rightarrow> ((fst s, (snd s)\<lparr>calls := calls (snd s) @ [cb]\<rparr>), None))"

definition on_update :: "aqara_const \<Rightarrow> payload \<Rightarrow> state \<Rightarrow> outcome" where
  "on_update c data s =
     (case do_update c data s of
        (s', Some e) \<Rightarrow> (s', Some e)
      | (s', None) \<Rightarrow> notify s')"

definition on_heartbeat :: "aqara_const \<Rightarrow> payload \<Rightarrow> state \<Rightarrow> outcome" where
  "on_heartbeat c data s =
     (case do_heartbeat c data s of
        (s', Some e) \<Rightarrow> (s', Some e)
      | (s', None) \<Rightarrow> notify s')"

subsection \<open>Example inputs\<close>

text \<open>
  One choice of the constants, a device record and an empty world, for the concrete
  instances below.
\<close>

abbreviation const_ex :: aqara_const where
  "const_ex \<equiv>
     \<lparr>AQARA_DEVICE_HT = PyStr ''sensor_ht'', AQARA_DEVICE_MOTION = PyStr ''motion'',
      AQARA_DEVICE_MAGNET = PyStr ''magnet'', AQARA_DEVICE_SWITCH = PyStr ''switch'',
      AQARA_SWITCH_ACTION_CLICK = PyInt 1, AQARA_SWITCH_ACTION_DOUBLE_CLICK = PyInt 2,
      AQARA_SWITCH_ACTION_LONG_CLICK_PRESS = PyInt 3,
      AQARA_SWITCH_ACTION_LONG_CLICK_RELEASE = PyInt 4\<rparr>"

abbreviation base_ex :: "pyval \<Rightarrow> callback option \<Rightarrow> AqaraBaseDevice" where
  "base_ex m cb \<equiv>
     \<lparr>self_gateway = PyNone, self_model = m, self_sid = PyStr ''158d0001'',
      self_update_callback = cb\<rparr>"

abbreviation world_ex :: world where
  "world_ex \<equiv> \<lparr>log = [], calls = []\<rparr>"

section \<open>Facts about the built-ins\<close>

subsection \<open>Rounding\<close>

lemma ilog2_bounds:
  assumes "0 < q"
  shows "2 powi (ilog2 q) \<le> q \<and> q < 2 powi (ilog2 q + 1)"
proof -
  obtain a b where ab: "quotient_of q = (a, b)"
    by (cases "quotient_of q")
  have b: "0 < b"
    using quotient_of_denom_pos [OF ab] .
  have q: "q = of_int a / of_int b"
    using quotient_of_div [OF ab] .
  have a: "0 < a"
    using assms b by (simp add: q zero_less_divide_iff)
  define la where "la = floorlog 2 (nat a)"
  define lb where "lb = floorlog 2 (nat b)"
  have la: "2 ^ (la - 1) \<le> nat a" "nat a < 2 ^ la"
    using floorlog_bounds [of "nat a" 2] a by (simp_all add: la_def)
  have lb: "2 ^ (lb - 1) \<le> nat b" "nat b < 2 ^ lb"
    using floorlog_bounds [of "nat b" 2] b by (simp_all add: lb_def)
  have la1: "1 \<le> la"
    using la(2) a by (cases la) auto
  have lb1: "1 \<le> lb"
    using lb(2) b by (cases lb) auto
  have A1: "(2::rat) ^ (la - 1) \<le> of_int a"
  proof -
    have "(of_nat (2 ^ (la - 1)) :: rat) \<le> of_nat (nat a)"
      using la(1) of_nat_le_iff by blast
    then show ?thesis using a by simp
  qed
  have A2: "of_int a < (2::rat) ^ la"
  proof -
    have "(of_nat (nat a) :: rat) < of_nat (2 ^ la)"
      using la(2) of_nat_less_iff by blast
    then show ?thesis using a by simp
  qed
  have B1: "(2::rat) ^ (lb - 1) \<le> of_int b"
  proof -
    have "(of_nat (2 ^ (lb - 1)) :: rat) \<le> of_nat (nat b)"
      using lb(1) of_nat_le_iff by blast
    then show ?thesis using b by simp
  qed
  have B2: "of_int b < (2::rat) ^ lb"
  proof -
    have "(of_nat (nat b) :: rat) < of_nat (2 ^ lb)"
      using lb(2) of_nat_less_iff by blast
    then show ?thesis using b by simp
  qed
  define e where "e = int la - int lb"
  have bpos: "(0::rat) < of_int b" using b by simp
  have up: "q < 2 powi (e + 1)"
  proof -
    have "q < 2 ^ la / of_int b"
      unfolding q using A2 bpos by (simp add: divide_strict_right_mono)
    also have "\<dots> \<le> 2 ^ la / 2 ^ (lb - 1)"
      using B1 by (simp add: frac_le)
    also have "\<dots> = 2 powi (int la - int (lb - 1))"
      by (simp add: power_int_diff)
    also have "int la - int (lb - 1) = e + 1"
      using lb1 by (simp add: e_def)
    finally show ?thesis .
  qed
  have lo: "2 powi (e - 1) < q"
  proof -
    have ee: "e - 1 = int (la - 1) - int lb"
      using la1 by (simp add: e_def)
    have "(2::rat) powi (e - 1) = 2 powi (int (la - 1) - int lb)"
      by (simp only: ee)
    also have "\<dots> = 2 ^ (la - 1) / 2 ^ lb"
      by (simp add: power_int_diff)
    also have "\<dots> < 2 ^ (la - 1) / of_int b"
      using B2 bpos by (simp add: divide_strict_left_mono)
    also have "\<dots> \<le> q"
      unfolding q using A1 bpos by (simp add: divide_right_mono)
    finally show ?thesis .
  qed
  have il: "ilog2 q = (if q < 2 powi e then e - 1 else e)"
    by (simp add: ilog2_def ab la_def lb_def e_def)
  show ?thesis
    using up lo by (auto simp: il)
qed

lemma ilog2_unique:
  assumes "0 < q" "2 powi e \<le> q" "q < 2 powi (e + 1)"
  shows "ilog2 q = e"
proof -
  from ilog2_bounds [OF assms(1)]
  have l: "2 powi (ilog2 q) \<le> q" and u: "q < 2 powi (ilog2 q + 1)" by simp_all
  have "\<not> e + 1 \<le> ilog2 q"
  proof
    assume "e + 1 \<le> ilog2 q"
    then have "(2::rat) powi (e + 1) \<le> 2 powi (ilog2 q)"
      by (intro power_int_increasing) simp_all
    with l assms(3) show False by linarith
  qed
  moreover have "\<not> ilog2 q + 1 \<le> e"
  proof
    assume "ilog2 q + 1 \<le> e"
    then have "(2::rat) powi (ilog2 q + 1) \<le> 2 powi e"
      by (intro power_int_increasing) simp_all
    with u assms(2) show False by linarith
  qed
  ultimately show ?thesis by linarith
qed

lemma round_half_even_eq:
  assumes "\<bar>q - of_int m\<bar> < 1 / 2"
  shows "round_half_even q = m"
proof (cases "of_int m \<le> q")
  case True
  then have f: "\<lfloor>q\<rfloor> = m"
    using assms by (intro floor_unique) linarith+
  show ?thesis
    using assms True by (simp add: round_half_even_def Let_def f)
next
  case False
  then have f: "\<lfloor>q\<rfloor> = m - 1"
    using assms by (intro floor_unique) (simp, linarith)+
  show ?thesis
    using assms False by (simp add: round_half_even_def Let_def f)
qed

lemma round_half_even_err: "\<bar>of_int (round_half_even q) - q\<bar> \<le> 1 / 2"
proof -
  have "of_int \<lfloor>q\<rfloor> \<le> q" "q < of_int \<lfloor>q\<rfloor> + 1"
    by linarith+
  then show ?thesis
    by (auto simp: round_half_even_def Let_def)
qed

lemma to_double_eqI:
  assumes q: "q \<noteq> 0"
    and lo: "2 powi e \<le> \<bar>q\<bar>" and hi: "\<bar>q\<bar> < 2 powi (e + 1)"
    and e: "- 1022 \<le> e" "e < 1023"
    and m: "\<bar>q / 2 powi (e - 52) - of_int m\<bar> < 1 / 2"
  shows "to_double q = Inr (of_int m * 2 powi (e - 52))"
proof -
  have il: "ilog2 \<bar>q\<bar> = e"
    using q lo hi by (intro ilog2_unique) simp_all
  have mx: "max e (- 1022) = e"
    using e by simp
  have r: "round_half_even (q / 2 powi (e - 52)) = m"
    using m by (rule round_half_even_eq)
  have upos: "(0::rat) < 2 powi (e - 52)"
    by simp
  have "\<bar>q / 2 powi (e - 52)\<bar> < 2 powi (e + 1) / 2 powi (e - 52)"
    using hi upos by (simp add: divide_strict_right_mono)
  also have "(2::rat) powi (e + 1) / 2 powi (e - 52) = 2 powi ((e + 1) - (e - 52))"
    by (rule power_int_diff [symmetric]) simp
  also have "\<dots> = 2 ^ 53"
    by simp
  finally have "\<bar>q / 2 powi (e - 52)\<bar> < 2 ^ 53" .
  with m have "\<bar>(of_int m :: rat)\<bar> < 2 ^ 53 + 1 / 2"
    by linarith
  then have "\<bar>(of_int m :: rat)\<bar> < of_int (2 ^ 53 + 1)"
    by simp
  then have "\<bar>m\<bar> < 2 ^ 53 + 1"
    by (metis of_int_abs of_int_less_iff)
  then have mb: "\<bar>(of_int m :: rat)\<bar> \<le> 2 ^ 53"
    by (metis of_int_abs of_int_le_iff of_int_numeral of_int_power zle_add1_eq_le zless_add1_eq)
  have s1: "(2::rat) ^ 53 * 2 powi (e - 52) = 2 powi (e + 1)"
  proof -
    have "(2::rat) powi 53 * 2 powi (e - 52) = 2 powi (53 + (e - 52))"
      by (rule power_int_add [symmetric]) simp
    moreover have "53 + (e - 52) = e + 1"
      by simp
    ultimately show ?thesis
      by simp
  qed
  have "\<bar>of_int m * 2 powi (e - 52)\<bar> = \<bar>(of_int m :: rat)\<bar> * 2 powi (e - 52)"
    by (simp add: abs_mult)
  also have "\<dots> \<le> 2 ^ 53 * 2 powi (e - 52)"
    using mb upos by (simp add: mult_right_mono)
  also have "\<dots> = 2 powi (e + 1)"
    by (rule s1)
  also have "\<dots> \<le> 2 powi 1023"
    using e by (intro power_int_increasing) simp_all
  also have "\<dots> < 2 powi 1024"
    by (intro power_int_strict_increasing) simp_all
  finally have "\<not> (2::rat) ^ 1024 \<le> \<bar>of_int m * 2 powi (e - 52)\<bar>"
    by simp
  then show ?thesis
    using q by (simp add: to_double_def il mx r Let_def)
qed

subsection \<open>The readings of the specification's example\<close>

lemma int_of_str_2350: "int_of_str ''2350'' = Inr 2350"
  by code_simp


lemma int_of_str_abc: "int_of_str ''abc'' = Inl ValueError"
  by code_simp

lemma int_of_str_3005: "int_of_str ''3005'' = Inr 3005"
  by code_simp

text \<open>Whitespace around the digits is accepted, a control character is not.\<close>

lemma int_of_str_padded: "int_of_str (CHR 0x09 # ''2350 '') = Inr 2350"
  by code_simp

lemma int_of_str_separator: "int_of_str (CHR 0x1C # ''2350'') = Inl ValueError"
  by code_simp

lemma int_of_str_separators: "int_of_str [CHR 0x1F, CHR ''7'', CHR 0x1C] = Inl ValueError"
  by code_simp

lemma truediv_100_2350: "truediv_100 2350 = Inr (47 / 2)"
proof -
  have "to_double (2350 / 100) = Inr (of_int 6614661952700416 * 2 powi (4 - 52))"
    by (rule to_double_eqI) (simp_all add: power_int_minus field_simps)
  then show ?thesis
    by (simp add: truediv_100_def power_int_minus)
qed



lemma round_1_23_5: "round_1 (47 / 2) = Inr (47 / 2)"
proof -
  have r: "round_half_even (47 / 2 * 10) = 235"
    by (rule round_half_even_eq) simp
  have "to_double (of_int 235 / 10) = Inr (of_int 6614661952700416 * 2 powi (4 - 52))"
    by (rule to_double_eqI) (simp_all add: power_int_minus field_simps)
  then show ?thesis
    unfolding round_1_def r by (simp add: power_int_minus)
qed


lemma parse_value_2350: "parse_value (PyStr ''2350'') = Inr (47 / 2)"
  by (simp add: parse_value_def int_of_str_2350 truediv_100_2350 round_1_23_5)


lemma parse_value_abc: "parse_value (PyStr ''abc'') = Inl ValueError"
  by (simp add: parse_value_def int_of_str_abc)

subsection \<open>Accuracy of the decoding\<close>

text \<open>
  Rounding to a float moves a value by at most the fraction \<open>1 / 2 ^ 53\<close> of itself. For a
  reading \<open>n\<close> below \<open>2 ^ 53\<close> in size, \<open>parse_value\<close> therefore never raises, and what it
  returns is the float nearest to a decimal \<open>k / 10\<close> that lies within \<open>0.05\<close> of
  \<open>n / 100\<close>: the reading divided by 100 and rounded to one decimal place.
\<close>

lemma to_double_near:
  assumes q: "q \<noteq> 0" and lo: "1 / 128 \<le> \<bar>q\<bar>" and hi: "\<bar>q\<bar> < 2 ^ 1000"
  shows "\<exists>r. to_double q = Inr r \<and> \<bar>r - q\<bar> \<le> \<bar>q\<bar> / 2 ^ 53"
proof -
  define e where "e = ilog2 \<bar>q\<bar>"
  have pos: "0 < \<bar>q\<bar>"
    using q by simp
  from ilog2_bounds [OF pos]
  have el: "2 powi e \<le> \<bar>q\<bar>" and eu: "\<bar>q\<bar> < 2 powi (e + 1)"
    by (simp_all add: e_def)
  have e1: "- 7 \<le> e"
  proof (rule ccontr)
    assume "\<not> - 7 \<le> e"
    then have "e + 1 \<le> - 7"
      by simp
    then have "(2::rat) powi (e + 1) \<le> 2 powi (- 7)"
      by (intro power_int_increasing) simp_all
    also have "\<dots> = 1 / 128"
      by (simp add: power_int_minus)
    finally show False
      using eu lo by linarith
  qed
  have e2: "e < 1000"
  proof (rule ccontr)
    assume "\<not> e < 1000"
    then have "1000 \<le> e"
      by simp
    then have "(2::rat) powi 1000 \<le> 2 powi e"
      by (intro power_int_increasing) simp_all
    then show False
      using el hi by simp
  qed
  define ulp :: rat where "ulp = 2 powi (e - 52)"
  have upos: "0 < ulp"
    by (simp add: ulp_def)
  have mx: "max e (- 1022) = e"
    using e1 by simp
  define m where "m = round_half_even (q / ulp)"
  define r where "r = of_int m * ulp"
  have "\<bar>r - q\<bar> = \<bar>of_int m - q / ulp\<bar> * ulp"
  proof -
    have "r - q = (of_int m - q / ulp) * ulp"
      using upos by (simp add: r_def field_simps)
    then show ?thesis
      using upos by (simp add: abs_mult)
  qed
  also have "\<dots> \<le> 1 / 2 * ulp"
    using round_half_even_err [of "q / ulp"] upos
    by (intro mult_right_mono) (simp_all add: m_def)
  also have "1 / 2 * ulp = 2 powi e / 2 ^ 53"
  proof -
    have "(2::rat) powi (e - 52) = 2 powi e / 2 powi 52"
      by (rule power_int_diff) simp
    then show ?thesis
      by (simp add: ulp_def)
  qed
  also have "\<dots> \<le> \<bar>q\<bar> / 2 ^ 53"
    using el by (simp add: divide_right_mono)
  finally have err: "\<bar>r - q\<bar> \<le> \<bar>q\<bar> / 2 ^ 53" .
  have "\<bar>q\<bar> / 2 ^ 53 \<le> \<bar>q\<bar>"
    using pos by (simp add: field_simps)
  with err have "\<bar>r\<bar> \<le> 2 * \<bar>q\<bar>"
    by linarith
  also have "\<dots> < 2 * 2 ^ 1000"
    using hi by simp
  also have "\<dots> \<le> (2::rat) ^ 1024"
    by simp
  finally have small: "\<not> (2::rat) ^ 1024 \<le> \<bar>r\<bar>"
    by simp
  have "to_double q = Inr r"
    using q small unfolding to_double_def e_def [symmetric] mx ulp_def [symmetric]
    by (simp add: Let_def m_def [symmetric] r_def [symmetric])
  with err show ?thesis
    by blast
qed


lemma parse_value_rounds_to_tenths:
  assumes n: "\<bar>n\<bar> < 2 ^ 53"
  shows "\<exists>y k. parse_value (PyInt n) = Inr y \<and> to_double (of_int k / 10) = Inr y
           \<and> \<bar>of_int k / 10 - of_int n / 100 :: rat\<bar> \<le> 1 / 20"
proof -
  define q :: rat where "q = of_int n / 100"
  have nb: "\<bar>of_int n :: rat\<bar> < 2 ^ 53"
  proof -
    have "(of_int \<bar>n\<bar> :: rat) < of_int (2 ^ 53)"
      using n by (simp only: of_int_less_iff)
    then show ?thesis
      by simp
  qed
  have qb: "\<bar>q\<bar> < 2 ^ 53 / 100"
    using nb by (simp add: q_def)
  obtain x where x: "truediv_100 n = Inr x" and xe: "\<bar>x - q\<bar> \<le> \<bar>q\<bar> / 2 ^ 53"
  proof (cases "n = 0")
    case True
    then have "truediv_100 n = Inr 0" "\<bar>0 - q\<bar> \<le> \<bar>q\<bar> / 2 ^ 53"
      by (simp_all add: truediv_100_def to_double_def q_def)
    then show ?thesis
      using that by blast
  next
    case False
    then have "1 \<le> \<bar>n\<bar>"
      by simp
    then have "(of_int 1 :: rat) \<le> of_int \<bar>n\<bar>"
      by (simp only: of_int_le_iff)
    then have lo: "1 / 128 \<le> \<bar>q\<bar>"
      by (simp add: q_def)
    have hi: "\<bar>q\<bar> < 2 ^ 1000"
      using qb by simp
    have "q \<noteq> 0"
      using False by (simp add: q_def)
    from to_double_near [OF this lo hi] show ?thesis
      using that by (auto simp: truediv_100_def q_def)
  qed
  define k where "k = round_half_even (x * 10)"
  have ke: "\<bar>of_int k - x * 10\<bar> \<le> 1 / 2"
    unfolding k_def by (rule round_half_even_err)
  have "\<bar>q\<bar> / 2 ^ 53 < 1 / 100"
    using qb by simp
  with xe have xq: "\<bar>x - q\<bar> < 1 / 100"
    by linarith
  have "\<bar>of_int k * 10 - of_int n :: rat\<bar> < 6"
  proof -
    have "of_int k * 10 - of_int n = (of_int k - x * 10) * 10 + (x - q) * 100"
      by (simp add: q_def algebra_simps)
    then have "\<bar>of_int k * 10 - of_int n :: rat\<bar> \<le> \<bar>(of_int k - x * 10) * 10\<bar> + \<bar>(x - q) * 100\<bar>"
      by (simp only: abs_triangle_ineq)
    also have "\<dots> = \<bar>of_int k - x * 10\<bar> * 10 + \<bar>x - q\<bar> * 100"
      by (simp only: abs_mult abs_numeral)
    finally have sum: "\<bar>of_int k * 10 - of_int n :: rat\<bar> \<le> \<bar>of_int k - x * 10\<bar> * 10 + \<bar>x - q\<bar> * 100" .
    have lin: "a \<le> 1 / 2 \<Longrightarrow> b < 1 / 100 \<Longrightarrow> c \<le> a * 10 + b * 100 \<Longrightarrow> c < 6" for a b c :: rat
      by linarith
    from ke xq sum show ?thesis
      by (rule lin)
  qed
  then have "(of_int \<bar>k * 10 - n\<bar> :: rat) < of_int 6"
    by simp
  then have "\<bar>k * 10 - n\<bar> < 6"
    by (simp only: of_int_less_iff)
  then have "\<bar>k * 10 - n\<bar> \<le> 5"
    by simp
  then have "(of_int \<bar>k * 10 - n\<bar> :: rat) \<le> of_int 5"
    by (simp only: of_int_le_iff)
  then have k5: "\<bar>of_int k * 10 - of_int n :: rat\<bar> \<le> 5"
    by simp
  have close: "\<bar>of_int k / 10 - of_int n / 100 :: rat\<bar> \<le> 1 / 20"
  proof -
    have eq: "of_int k / 10 - of_int n / 100 = (of_int k * 10 - of_int n :: rat) / 100"
      by simp
    have "\<bar>of_int k / 10 - of_int n / 100 :: rat\<bar> = \<bar>(of_int k * 10 - of_int n) / 100\<bar>"
      by (simp only: eq)
    also have "\<dots> = \<bar>of_int k * 10 - of_int n\<bar> / 100"
      by (simp only: abs_divide abs_numeral)
    also have "\<dots> \<le> 5 / 100"
      using k5 by (rule divide_right_mono) simp
    finally show ?thesis
      by simp
  qed
  obtain y where y: "to_double (of_int k / 10) = Inr y"
  proof (cases "k = 0")
    case True
    then have "to_double (of_int k / 10) = Inr 0"
      by (simp add: to_double_def)
    then show ?thesis
      using that by blast
  next
    case False
    then have "1 \<le> \<bar>k\<bar>"
      by simp
    then have "(of_int 1 :: rat) \<le> of_int \<bar>k\<bar>"
      by (simp only: of_int_le_iff)
    then have lo: "1 / 128 \<le> \<bar>of_int k / 10 :: rat\<bar>"
      by simp
    have close': "\<bar>of_int k / 10 - q\<bar> \<le> 1 / 20"
      using close by (simp only: q_def)
    have lin2: "\<bar>a - b\<bar> \<le> c \<Longrightarrow> \<bar>a\<bar> \<le> \<bar>b\<bar> + c" for a b c :: rat
      by linarith
    from lin2 [OF close'] have "\<bar>of_int k / 10 :: rat\<bar> \<le> \<bar>q\<bar> + 1 / 20" .
    with qb have hi: "\<bar>of_int k / 10 :: rat\<bar> < 2 ^ 1000"
      by simp
    have "(of_int k / 10 :: rat) \<noteq> 0"
      using False by simp
    from to_double_near [OF this lo hi] show ?thesis
      using that by blast
  qed
  have "parse_value (PyInt n) = Inr y"
    by (simp add: parse_value_def x round_1_def k_def [symmetric] y)
  with y close show ?thesis
    by blast
qed

section \<open>Facts about the hooks\<close>

text \<open>No hook touches the base fields or the record of callback invocations.\<close>

lemma frame_do_update:
  "do_update c data (d, w) = ((d', w'), r) \<Longrightarrow> base d' = base d \<and> calls w' = calls w"
  by (cases d) (auto simp: invalid_status_msg_def split: option.splits sum.splits)

lemma frame_do_heartbeat:
  "do_heartbeat c data (d, w) = ((d', w'), r) \<Longrightarrow> base d' = base d \<and> calls w' = calls w"
  by (cases d) (auto simp: invalid_status_msg_def split: option.splits sum.splits)

lemma notify_device [simp]: "fst (fst (notify s)) = fst s"
  by (simp add: notify_def split: option.splits)

lemma notify_ok [simp]: "snd (notify s) = None"
  by (simp add: notify_def split: option.splits)

lemma base_set_update_callback [simp]:
  "self_update_callback (base (set_update_callback cb d)) = cb"
  by (cases d) (simp_all add: set_update_callback_def)


section \<open>The claims\<close>

text \<open>
  Claim C1 says that \<open>create_device\<close> returns, for each of the four model identifiers,
  a device whose \<open>sid\<close> and \<open>model\<close> are the arguments. The code does not: every subclass
  passes two arguments to the three-parameter \<open>AqaraBaseDevice.__init__\<close>, so the
  construction raises \<open>TypeError\<close> and no device is returned.
\<close>

theorem create_device_recognized_raises:
  "m \<in> {AQARA_DEVICE_HT c, AQARA_DEVICE_MOTION c, AQARA_DEVICE_MAGNET c, AQARA_DEVICE_SWITCH c}
   \<Longrightarrow> create_device c m i = Inl TypeError"
  by (auto simp: create_device_def AqaraHTSensor_init_def AqaraMotionSensor_init_def
      AqaraContactSensor_init_def AqaraSwitchSensor_init_def)

text \<open>Witness of C1's theorem: the HT identifier of the example constants.\<close>

theorem create_device_recognized_raises_witness:
  "PyStr ''sensor_ht'' \<in> {AQARA_DEVICE_HT const_ex, AQARA_DEVICE_MOTION const_ex,
                          AQARA_DEVICE_MAGNET const_ex, AQARA_DEVICE_SWITCH const_ex}
   \<and> create_device const_ex (PyStr ''sensor_ht'') (PyStr ''158d0001'') = Inl TypeError"
  using create_device_recognized_raises [of "PyStr ''sensor_ht''" const_ex "PyStr ''158d0001''"]
  by simp

text \<open>
  Claim C2 says that no parsing hook of any variant lets an exception escape, whatever
  the payload holds. It fails where a hook converts a number: \<open>int()\<close> of the string
  \<open>abc\<close> raises \<open>ValueError\<close> out of the HT update hook.
\<close>

theorem hook_raises_counterexample:
  "snd (do_update const_ex [''temperature'' \<mapsto> PyStr ''abc'']
          (AqaraHTSensor (base_ex (PyStr ''sensor_ht'') None) 0 0, world_ex)) = Some ValueError"
  by (simp add: parse_value_def int_of_str_abc)

text \<open>
  C2 as amended: the update hooks of the contact and motion variants never raise; the
  update hook of the switch does not raise when the status is absent or one of the four
  known ones; the HT hooks raise exactly when a present temperature or humidity fails
  to convert, and then with the conversion's exception; the heartbeat hooks of contact,
  motion and switch raise exactly when a present voltage is rejected by \<open>int()\<close>, with
  its exception.
\<close>

theorem hooks_raise_only_from_conversion:
  "snd (do_update c data (AqaraContactSensor b triggered voltage, w)) = None
   \<and> snd (do_update c data (AqaraMotionSensor b triggered voltage, w)) = None
   \<and> ((\<forall>status. data ''status'' = Some status \<longrightarrow> status \<in> dom (BUTTON_ACTION_MAP c))
        \<longrightarrow> snd (do_update c data (AqaraSwitchSensor b last_action voltage, w)) = None)
   \<and> (snd (do_update c data (AqaraHTSensor b temp humid, w)) = None
        \<longleftrightarrow> (\<forall>k\<in>{''temperature'', ''humidity''}. \<forall>v. data k = Some v \<longrightarrow> (\<exists>x. parse_value v = Inr x)))
   \<and> (\<forall>e. snd (do_update c data (AqaraHTSensor b temp humid, w)) = Some e
        \<longrightarrow> (\<exists>k\<in>{''temperature'', ''humidity''}. \<exists>v. data k = Some v \<and> parse_value v = Inl e))
   \<and> do_heartbeat c data (AqaraHTSensor b temp humid, w) = do_update c data (AqaraHTSensor b temp humid, w)
   \<and> snd (do_heartbeat c data (AqaraContactSensor b triggered voltage, w)) =
        (case data ''voltage'' of None \<Rightarrow> None
         | Some v \<Rightarrow> (case py_int v of Inl e \<Rightarrow> Some e | Inr n \<Rightarrow> None))
   \<and> snd (do_heartbeat c data (AqaraMotionSensor b triggered voltage, w)) =
        (case data ''voltage'' of None \<Rightarrow> None
         | Some v \<Rightarrow> (case py_int v of Inl e \<Rightarrow> Some e | Inr n \<Rightarrow> None))
   \<and> snd (do_heartbeat c data (AqaraSwitchSensor b last_action voltage, w)) =
        (case data ''voltage'' of None \<Rightarrow> None
         | Some v \<Rightarrow> (case py_int v of Inl e \<Rightarrow> Some e | Inr n \<Rightarrow> None))"
proof -
  have contact: "snd (do_update c data (AqaraContactSensor b triggered voltage, w)) = None"
    by (simp split: option.splits)
  have motion: "snd (do_update c data (AqaraMotionSensor b triggered voltage, w)) = None"
    by (simp split: option.splits)
  have switch: "(\<forall>status. data ''status'' = Some status \<longrightarrow> status \<in> dom (BUTTON_ACTION_MAP c))
        \<longrightarrow> snd (do_update c data (AqaraSwitchSensor b last_action voltage, w)) = None"
    by (auto split: option.splits)
  have ht_iff: "snd (do_update c data (AqaraHTSensor b temp humid, w)) = None
        \<longleftrightarrow> (\<forall>k\<in>{''temperature'', ''humidity''}. \<forall>v. data k = Some v \<longrightarrow> (\<exists>x. parse_value v = Inr x))"
    by (auto split: option.splits sum.splits)
  have ht_err: "\<forall>e. snd (do_update c data (AqaraHTSensor b temp humid, w)) = Some e
        \<longrightarrow> (\<exists>k\<in>{''temperature'', ''humidity''}. \<exists>v. data k = Some v \<and> parse_value v = Inl e)"
    by (auto split: option.splits sum.splits)
  have ht_hb: "do_heartbeat c data (AqaraHTSensor b temp humid, w) =
      do_update c data (AqaraHTSensor b temp humid, w)"
    by simp
  have hb1: "snd (do_heartbeat c data (AqaraContactSensor b triggered voltage, w)) =
        (case data ''voltage'' of None \<Rightarrow> None
         | Some v \<Rightarrow> (case py_int v of Inl e \<Rightarrow> Some e | Inr n \<Rightarrow> None))"
    by (simp split: option.splits sum.splits)
  have hb2: "snd (do_heartbeat c data (AqaraMotionSensor b triggered voltage, w)) =
        (case data ''voltage'' of None \<Rightarrow> None
         | Some v \<Rightarrow> (case py_int v of Inl e \<Rightarrow> Some e | Inr n \<Rightarrow> None))"
    by (simp split: option.splits sum.splits)
  have hb3: "snd (do_heartbeat c data (AqaraSwitchSensor b last_action voltage, w)) =
        (case data ''voltage'' of None \<Rightarrow> None
         | Some v \<Rightarrow> (case py_int v of Inl e \<Rightarrow> Some e | Inr n \<Rightarrow> None))"
    by (simp split: option.splits sum.splits)
  from contact motion switch ht_iff ht_err ht_hb hb1 hb2 hb3 show ?thesis
    by blast
qed

text \<open>
  Witness of C2's amended theorem: a switch report with the known status \<open>click\<close> does not
  raise; an HT report whose temperature is \<open>abc\<close> raises, and one whose
  temperature is \<open>2350\<close> does not; a contact heartbeat with voltage \<open>3005\<close> does not raise.
\<close>

theorem hooks_raise_only_from_conversion_witness:
  "snd (do_update const_ex [''status'' \<mapsto> PyStr ''click'']
          (AqaraSwitchSensor (base_ex (PyStr ''switch'') None) PyNone 0, world_ex)) = None
   \<and> snd (do_update const_ex [''temperature'' \<mapsto> PyStr ''2350'']
          (AqaraHTSensor (base_ex (PyStr ''sensor_ht'') None) 0 0, world_ex)) = None
   \<and> snd (do_heartbeat const_ex [''voltage'' \<mapsto> PyStr ''3005'']
          (AqaraContactSensor (base_ex (PyStr ''magnet'') None) False 0, world_ex)) = None"
proof -
  have 1: "\<forall>status. [''status'' \<mapsto> PyStr ''click''] ''status'' = Some status
             \<longrightarrow> status \<in> dom (BUTTON_ACTION_MAP const_ex)"
    by (simp add: BUTTON_ACTION_MAP_def)
  have ex: "\<exists>x. parse_value (PyStr ''2350'') = Inr x"
    by (rule exI) (rule parse_value_2350)
  have 2: "\<forall>k\<in>{''temperature'', ''humidity''}. \<forall>v. [''temperature'' \<mapsto> PyStr ''2350''] k = Some v
             \<longrightarrow> (\<exists>x. parse_value v = Inr x)"
    using ex by (auto split: if_splits)
  note t = hooks_raise_only_from_conversion
  from 1 t [of const_ex "[''status'' \<mapsto> PyStr ''click'']" "base_ex (PyStr ''switch'') None" False 0 world_ex PyNone 0 0]
  have a: "snd (do_update const_ex [''status'' \<mapsto> PyStr ''click'']
          (AqaraSwitchSensor (base_ex (PyStr ''switch'') None) PyNone 0, world_ex)) = None"
    by blast
  from 2 t [of const_ex "[''temperature'' \<mapsto> PyStr ''2350'']" "base_ex (PyStr ''sensor_ht'') None" False 0 world_ex PyNone 0 0]
  have b: "snd (do_update const_ex [''temperature'' \<mapsto> PyStr ''2350'']
          (AqaraHTSensor (base_ex (PyStr ''sensor_ht'') None) 0 0, world_ex)) = None"
    by blast
  from t [of const_ex "[''voltage'' \<mapsto> PyStr ''3005'']" "base_ex (PyStr ''magnet'') None" False 0 world_ex PyNone 0 0]
  have c: "snd (do_heartbeat const_ex [''voltage'' \<mapsto> PyStr ''3005'']
          (AqaraContactSensor (base_ex (PyStr ''magnet'') None) False 0, world_ex)) = None"
    by (simp add: int_of_str_3005)
  from a b c show ?thesis by blast
qed

text \<open>
  Claim C3 says that on the switch a report with status \<open>click\<close> sets \<open>last_action\<close> to
  the click code, and that an unknown status such as \<open>bogus\<close> leaves \<open>last_action\<close> alone,
  logs a warning and raises nothing. The first half holds. For the second the code
  builds its message with \<open>'invalid status: {}' % status\<close>, which raises \<open>TypeError\<close>
  before \<open>log_warning\<close> is reached: \<open>last_action\<close> is unchanged, nothing is logged, the
  callback is not called, and the exception escapes.
\<close>

theorem switch_on_update_click_and_unknown:
  "(data ''status'' = Some (PyStr ''click'') \<longrightarrow>
      on_update c data (AqaraSwitchSensor b last_action voltage, w) =
        notify (AqaraSwitchSensor b (AQARA_SWITCH_ACTION_CLICK c) voltage, w))
   \<and> (\<forall>status. data ''status'' = Some status \<and> status \<notin> dom (BUTTON_ACTION_MAP c) \<longrightarrow>
      on_update c data (AqaraSwitchSensor b last_action voltage, w) =
        ((AqaraSwitchSensor b last_action voltage, w), Some TypeError))"
  by (auto simp: on_update_def BUTTON_ACTION_MAP_def invalid_status_msg_def)

text \<open>Witness of C3's theorem: the reports \<open>{"status": "click"}\<close> and \<open>{"status": "bogus"}\<close>.\<close>

theorem switch_on_update_click_and_unknown_witness:
  "on_update const_ex [''status'' \<mapsto> PyStr ''click'']
      (AqaraSwitchSensor (base_ex (PyStr ''switch'') (Some 7)) PyNone 0, world_ex) =
     ((AqaraSwitchSensor (base_ex (PyStr ''switch'') (Some 7)) (PyInt 1) 0, \<lparr>log = [], calls = [7]\<rparr>), None)
   \<and> on_update const_ex [''status'' \<mapsto> PyStr ''bogus'']
      (AqaraSwitchSensor (base_ex (PyStr ''switch'') (Some 7)) PyNone 0, world_ex) =
     ((AqaraSwitchSensor (base_ex (PyStr ''switch'') (Some 7)) PyNone 0, world_ex), Some TypeError)"
proof -
  have 1: "[''status'' \<mapsto> PyStr ''click''] ''status'' = Some (PyStr ''click'')"
    by simp
  have 2: "[''status'' \<mapsto> PyStr ''bogus''] ''status'' = Some (PyStr ''bogus'')
             \<and> PyStr ''bogus'' \<notin> dom (BUTTON_ACTION_MAP const_ex)"
    by (simp add: BUTTON_ACTION_MAP_def dom_def)
  from 1 switch_on_update_click_and_unknown
         [of "[''status'' \<mapsto> PyStr ''click'']" const_ex "base_ex (PyStr ''switch'') (Some 7)" PyNone 0 world_ex]
  have a: "on_update const_ex [''status'' \<mapsto> PyStr ''click'']
      (AqaraSwitchSensor (base_ex (PyStr ''switch'') (Some 7)) PyNone 0, world_ex) =
     notify (AqaraSwitchSensor (base_ex (PyStr ''switch'') (Some 7)) (PyInt 1) 0, world_ex)"
    by simp
  from 2 switch_on_update_click_and_unknown
         [of "[''status'' \<mapsto> PyStr ''bogus'']" const_ex "base_ex (PyStr ''switch'') (Some 7)" PyNone 0 world_ex]
  have b: "on_update const_ex [''status'' \<mapsto> PyStr ''bogus'']
      (AqaraSwitchSensor (base_ex (PyStr ''switch'') (Some 7)) PyNone 0, world_ex) =
     ((AqaraSwitchSensor (base_ex (PyStr ''switch'') (Some 7)) PyNone 0, world_ex), Some TypeError)"
    by blast
  from a b show ?thesis
    by (simp add: notify_def)
qed

text \<open>
  Claim C4: for every model that is none of the four identifiers, and every sid,
  \<open>create_device\<close> returns no device and fails with the error for an unsupported device
  type (the code's \<open>RuntimeError\<close>), whose message carries the model and the sid.
\<close>

theorem create_device_unsupported:
  "m \<notin> {AQARA_DEVICE_HT c, AQARA_DEVICE_MOTION c, AQARA_DEVICE_MAGNET c, AQARA_DEVICE_SWITCH c}
   \<Longrightarrow> create_device c m i =
         Inl (RuntimeError (''Unsupported device type: '' @ py_str m @ '' ['' @ py_str i @ '']''))"
  by (simp add: create_device_def)

text \<open>Witness of C4's theorem: the model \<open>unknown\<close>.\<close>

theorem create_device_unsupported_witness:
  "PyStr ''unknown'' \<notin> {AQARA_DEVICE_HT const_ex, AQARA_DEVICE_MOTION const_ex,
                          AQARA_DEVICE_MAGNET const_ex, AQARA_DEVICE_SWITCH const_ex}
   \<and> create_device const_ex (PyStr ''unknown'') (PyStr ''158d0001'') =
       Inl (RuntimeError ''Unsupported device type: unknown [158d0001]'')"
  using create_device_unsupported [of "PyStr ''unknown''" const_ex "PyStr ''158d0001''"]
  by simp

text \<open>
  Claim C5: on the motion variant, from every state, \<open>on_update\<close> sets \<open>triggered\<close> to
  \<open>status == "motion"\<close> when the report has a status and to false when it has none, and
  raises nothing; so a report with status \<open>motion\<close> followed by an empty report leaves
  \<open>triggered\<close> false.
\<close>

theorem motion_on_update_status:
  "fst (fst (on_update c data (AqaraMotionSensor b triggered voltage, w))) =
     AqaraMotionSensor b
       (case data ''status'' of Some status \<Rightarrow> status = PyStr ''motion'' | None \<Rightarrow> False) voltage
   \<and> snd (on_update c data (AqaraMotionSensor b triggered voltage, w)) = None
   \<and> fst (fst (on_update c [''status'' \<mapsto> PyStr ''motion''] (AqaraMotionSensor b triggered voltage, w))) =
       AqaraMotionSensor b True voltage
   \<and> fst (fst (on_update c Map.empty
         (fst (on_update c [''status'' \<mapsto> PyStr ''motion''] (AqaraMotionSensor b triggered voltage, w))))) =
       AqaraMotionSensor b False voltage"
  by (simp add: on_update_def notify_def split: option.splits)

text \<open>Witness of C5's theorem: a motion sensor that starts idle, with a callback set.\<close>

theorem motion_on_update_status_witness:
  "fst (fst (on_update const_ex [''status'' \<mapsto> PyStr ''motion'']
        (AqaraMotionSensor (base_ex (PyStr ''motion'') (Some 7)) False 0, world_ex))) =
     AqaraMotionSensor (base_ex (PyStr ''motion'') (Some 7)) True 0
   \<and> fst (fst (on_update const_ex Map.empty
        (fst (on_update const_ex [''status'' \<mapsto> PyStr ''motion'']
           (AqaraMotionSensor (base_ex (PyStr ''motion'') (Some 7)) False 0, world_ex))))) =
     AqaraMotionSensor (base_ex (PyStr ''motion'') (Some 7)) False 0"
  using motion_on_update_status [of const_ex "[''status'' \<mapsto> PyStr ''motion'']"
          "base_ex (PyStr ''motion'') (Some 7)" False 0 world_ex]
  by simp

text \<open>
  Claim C6: on the contact variant, from every state, \<open>on_update\<close> with a report without
  status leaves \<open>triggered\<close> as it was (with a status it becomes \<open>status == "open"\<close>); so a
  report with status \<open>open\<close> followed by an empty report leaves \<open>triggered\<close> true.
\<close>

theorem contact_on_update_status:
  "fst (fst (on_update c data (AqaraContactSensor b triggered voltage, w))) =
     AqaraContactSensor b
       (case data ''status'' of Some status \<Rightarrow> status = PyStr ''open'' | None \<Rightarrow> triggered) voltage
   \<and> snd (on_update c data (AqaraContactSensor b triggered voltage, w)) = None
   \<and> (data ''status'' = None \<longrightarrow>
        fst (fst (on_update c data (AqaraContactSensor b triggered voltage, w))) =
          AqaraContactSensor b triggered voltage)
   \<and> fst (fst (on_update c Map.empty
         (fst (on_update c [''status'' \<mapsto> PyStr ''open''] (AqaraContactSensor b triggered voltage, w))))) =
       AqaraContactSensor b True voltage"
  by (simp add: on_update_def notify_def split: option.splits)

text \<open>Witness of C6's theorem: a closed contact sensor, and the empty report on an open one.\<close>

theorem contact_on_update_status_witness:
  "fst (fst (on_update const_ex Map.empty
        (AqaraContactSensor (base_ex (PyStr ''magnet'') None) True 0, world_ex))) =
     AqaraContactSensor (base_ex (PyStr ''magnet'') None) True 0
   \<and> fst (fst (on_update const_ex Map.empty
        (fst (on_update const_ex [''status'' \<mapsto> PyStr ''open'']
           (AqaraContactSensor (base_ex (PyStr ''magnet'') None) True 0, world_ex))))) =
     AqaraContactSensor (base_ex (PyStr ''magnet'') None) True 0"
  using contact_on_update_status [of const_ex Map.empty "base_ex (PyStr ''magnet'') None" True 0 world_ex]
  by simp




text \<open>
  Claim C8 says that every call of \<open>on_update\<close> or \<open>on_heartbeat\<close> invokes the registered
  callback exactly once. It fails when the hook raises: the exception leaves
  \<open>on_update\<close> before the callback is reached, so a registered callback is invoked zero
  times.
\<close>

theorem callback_once_counterexample:
  "self_update_callback (base (AqaraHTSensor (base_ex (PyStr ''sensor_ht'') (Some 7)) 0 0)) = Some 7
   \<and> calls (snd (fst (on_update const_ex [''temperature'' \<mapsto> PyStr ''abc'']
        (AqaraHTSensor (base_ex (PyStr ''sensor_ht'') (Some 7)) 0 0, world_ex)))) = []"
  by (simp add: on_update_def parse_value_abc)

text \<open>
  C8 as amended: for every variant, every call of \<open>on_update\<close> or \<open>on_heartbeat\<close> whose
  parsing hook returns normally invokes the registered callback exactly once, after the
  hook, whether or not a field changed, and invokes nothing when no callback is
  registered; a call whose hook raises invokes no callback.
\<close>

theorem callback_once_unless_hook_raises:
  "calls (snd (fst (on_update c data (d, w)))) =
     calls w @ (case (snd (do_update c data (d, w)), self_update_callback (base d)) of
                  (None, Some cb) \<Rightarrow> [cb] | _ \<Rightarrow> [])
   \<and> calls (snd (fst (on_heartbeat c data (d, w)))) =
     calls w @ (case (snd (do_heartbeat c data (d, w)), self_update_callback (base d)) of
                  (None, Some cb) \<Rightarrow> [cb] | _ \<Rightarrow> [])"
proof -
  obtain d1 w1 r1 where u: "do_update c data (d, w) = ((d1, w1), r1)"
    by (metis surj_pair)
  obtain d2 w2 r2 where h: "do_heartbeat c data (d, w) = ((d2, w2), r2)"
    by (metis surj_pair)
  from frame_do_update [OF u] have fu: "base d1 = base d" "calls w1 = calls w"
    by simp_all
  from frame_do_heartbeat [OF h] have fh: "base d2 = base d" "calls w2 = calls w"
    by simp_all
  show ?thesis
    by (simp add: on_update_def on_heartbeat_def u h fu fh notify_def split: option.splits)
qed

text \<open>
  Witness of C8's amended theorem: an empty report, which changes nothing on a contact
  sensor, still invokes its callback once, on update and on heartbeat.
\<close>

theorem callback_once_unless_hook_raises_witness:
  "calls (snd (fst (on_update const_ex Map.empty
      (AqaraContactSensor (base_ex (PyStr ''magnet'') (Some 7)) False 0, world_ex)))) = [7]
   \<and> calls (snd (fst (on_heartbeat const_ex Map.empty
      (AqaraContactSensor (base_ex (PyStr ''magnet'') (Some 7)) False 0, world_ex)))) = [7]"
  using callback_once_unless_hook_raises
          [of const_ex Map.empty "AqaraContactSensor (base_ex (PyStr ''magnet'') (Some 7)) False 0" world_ex]
  by simp

text \<open>
  Claim C9 says that after \<open>set_update_callback\<close> with \<open>cb1\<close> and then with \<open>cb2\<close> the next
  \<open>on_update\<close> or \<open>on_heartbeat\<close> invokes \<open>cb2\<close> and never \<open>cb1\<close>. The replacement holds, but
  the invocation fails when the hook of that event raises: with temperature \<open>abc\<close> the
  exception leaves \<open>on_update\<close> before the callback, and neither callback is invoked.
\<close>

theorem set_update_callback_replaces_counterexample:
  "self_update_callback (base (set_update_callback (Some 2) (set_update_callback (Some 1)
         (AqaraHTSensor (base_ex (PyStr ''sensor_ht'') None) 0 0)))) = Some 2
   \<and> on_update const_ex [''temperature'' \<mapsto> PyStr ''abc'']
      (set_update_callback (Some 2) (set_update_callback (Some 1)
         (AqaraHTSensor (base_ex (PyStr ''sensor_ht'') None) 0 0)), world_ex) =
     ((AqaraHTSensor (base_ex (PyStr ''sensor_ht'') (Some 2)) 0 0, \<lparr>log = [], calls = []\<rparr>),
      Some ValueError)"
  by (simp add: on_update_def set_update_callback_def parse_value_abc)

text \<open>
  C9 as amended: registering a callback replaces the one registered before. After
  \<open>set_update_callback\<close> with \<open>cb1\<close> and then with \<open>cb2\<close>, the registered callback is \<open>cb2\<close>;
  the next \<open>on_update\<close> or \<open>on_heartbeat\<close> whose parsing hook returns normally invokes
  \<open>cb2\<close> exactly once and nothing else, and one whose hook raises invokes no callback.
  In neither case is \<open>cb1\<close> invoked (unless it is \<open>cb2\<close> itself).
\<close>

theorem set_update_callback_replaces:
  "self_update_callback (base (set_update_callback (Some cb2) (set_update_callback cb1 d))) = Some cb2
   \<and> calls (snd (fst (on_update c data (set_update_callback (Some cb2) (set_update_callback cb1 d), w)))) =
     calls w @ (if snd (do_update c data (set_update_callback (Some cb2) (set_update_callback cb1 d), w)) = None
                then [cb2] else [])
   \<and> calls (snd (fst (on_heartbeat c data (set_update_callback (Some cb2) (set_update_callback cb1 d), w)))) =
     calls w @ (if snd (do_heartbeat c data (set_update_callback (Some cb2) (set_update_callback cb1 d), w)) = None
                then [cb2] else [])"
proof -
  let ?d = "set_update_callback (Some cb2) (set_update_callback cb1 d)"
  obtain d1 w1 r1 where u: "do_update c data (?d, w) = ((d1, w1), r1)"
    by (metis surj_pair)
  obtain d2 w2 r2 where h: "do_heartbeat c data (?d, w) = ((d2, w2), r2)"
    by (metis surj_pair)
  from frame_do_update [OF u] have fu: "base d1 = base ?d" "calls w1 = calls w"
    by simp_all
  from frame_do_heartbeat [OF h] have fh: "base d2 = base ?d" "calls w2 = calls w"
    by simp_all
  show ?thesis
    by (simp add: on_update_def on_heartbeat_def u h fu fh notify_def split: option.splits)
qed

text \<open>
  Witness of C9's amended theorem: callback 1, then callback 2, then a motion report,
  whose hook returns normally.
\<close>

theorem set_update_callback_replaces_witness:
  "snd (do_update const_ex [''status'' \<mapsto> PyStr ''motion'']
      (set_update_callback (Some 2) (set_update_callback (Some 1)
         (AqaraMotionSensor (base_ex (PyStr ''motion'') None) False 0)), world_ex)) = None
   \<and> calls (snd (fst (on_update const_ex [''status'' \<mapsto> PyStr ''motion'']
      (set_update_callback (Some 2) (set_update_callback (Some 1)
         (AqaraMotionSensor (base_ex (PyStr ''motion'') None) False 0)), world_ex)))) = [2]"
proof -
  have ok: "snd (do_update const_ex [''status'' \<mapsto> PyStr ''motion'']
      (set_update_callback (Some 2) (set_update_callback (Some 1)
         (AqaraMotionSensor (base_ex (PyStr ''motion'') None) False 0)), world_ex)) = None"
    by (simp add: set_update_callback_def)
  from set_update_callback_replaces
         [of 2 "Some 1" "AqaraMotionSensor (base_ex (PyStr ''motion'') None) False 0"
             const_ex "[''status'' \<mapsto> PyStr ''motion'']" world_ex]
  have "calls (snd (fst (on_update const_ex [''status'' \<mapsto> PyStr ''motion'']
      (set_update_callback (Some 2) (set_update_callback (Some 1)
         (AqaraMotionSensor (base_ex (PyStr ''motion'') None) False 0)), world_ex)))) = [2]"
    by (simp only: ok) simp
  with ok show ?thesis
    by blast
qed

text \<open>
  Claim C10: on the HT variant the heartbeat behaves as the update. From every state
  and for every payload the heartbeat hook yields the outcome of the update hook, and
  \<open>on_heartbeat\<close> that of \<open>on_update\<close>.
\<close>

theorem ht_heartbeat_is_update:
  "do_heartbeat c data (AqaraHTSensor b temp humid, w) = do_update c data (AqaraHTSensor b temp humid, w)
   \<and> on_heartbeat c data (AqaraHTSensor b temp humid, w) = on_update c data (AqaraHTSensor b temp humid, w)"
  by (simp add: on_heartbeat_def on_update_def)

text \<open>Witness of C10's theorem: the heartbeat with temperature \<open>2350\<close> stores \<open>23.5\<close>.\<close>

theorem ht_heartbeat_is_update_witness:
  "on_heartbeat const_ex [''temperature'' \<mapsto> PyStr ''2350'']
      (AqaraHTSensor (base_ex (PyStr ''sensor_ht'') None) 0 0, world_ex) =
     ((AqaraHTSensor (base_ex (PyStr ''sensor_ht'') None) (47 / 2) 0, world_ex), None)"
proof -
  have "on_update const_ex [''temperature'' \<mapsto> PyStr ''2350'']
      (AqaraHTSensor (base_ex (PyStr ''sensor_ht'') None) 0 0, world_ex) =
     ((AqaraHTSensor (base_ex (PyStr ''sensor_ht'') None) (47 / 2) 0, world_ex), None)"
    by (simp add: on_update_def parse_value_2350 notify_def)
  with ht_heartbeat_is_update
         [of const_ex "[''temperature'' \<mapsto> PyStr ''2350'']" "base_ex (PyStr ''sensor_ht'') None" 0 0 world_ex]
  show ?thesis
    by simp
qed

end
